theory Spec2Isabelle
  imports Complex_Main "HOL-Library.Word" "HOL-Library.Multiset"
begin

section \<open>Wire messages read by \<^verbatim>\<open>rsbackend.py\<close>\<close>

text \<open>
  The messages of \<^verbatim>\<open>anki.backend_pb2\<close> are generated protobuf classes. A message with a
  \<^verbatim>\<open>oneof value\<close> is a record whose first field holds what \<^verbatim>\<open>WhichOneof("value")\<close>
  returns (the name of the member that is set, or \<open>None\<close> when none is), followed by one
  field per member the module reads. Reading a member is reading the record field; protobuf
  hands out the default value (empty string, \<open>0\<close>, empty list, empty message) for a member
  that is not set. Python integers are \<open>int\<close>, \<^verbatim>\<open>bytes\<close> is a list of octets, and the
  floating-point \<^verbatim>\<open>speed\<close> of a text-to-speech tag, which the module only copies, is a
  type parameter.
\<close>

type_synonym bytes = "8 word list"

record pb_StringError =
  info :: string

record pb_TemplateParseError = pb_StringError +
  q_side :: bool

record pb_BackendError =
  which_error :: "string option"
  network_error :: pb_StringError
  io_error :: pb_StringError
  db_error :: pb_StringError
  template_parse :: pb_TemplateParseError
  invalid_input :: pb_StringError
  ankiweb_misc_error :: pb_StringError

record pb_TemplateRequirementOrds =
  ords :: "int list"

record pb_TemplateRequirement =
  which_req :: "string option"
  req_any :: pb_TemplateRequirementOrds
  req_all :: pb_TemplateRequirementOrds

record 'f pb_TTSTag =
  field_text :: string
  lang :: string
  voices :: "string list"
  other_args :: "string list"
  speed :: 'f

record 'f pb_AVTag =
  which_tag :: "string option"
  sound_or_video :: string
  tts :: "'f pb_TTSTag"

record pb_RenderedTemplateReplacement =
  pb_field_name :: string
  pb_current_text :: string
  pb_filters :: "string list"

record pb_RenderedTemplateNode =
  which_node :: "string option"
  node_text :: string
  replacement :: pb_RenderedTemplateReplacement

record pb_MediaSyncUploadProgress =
  files :: int
  deletions :: int

record pb_MediaSyncProgress =
  which_media_sync :: "string option"
  downloaded_changes :: int
  downloaded_files :: int
  uploaded :: pb_MediaSyncUploadProgress
  removed_files :: int

record pb_Progress =
  which_progress :: "string option"
  media_sync :: pb_MediaSyncProgress

section \<open>Native values\<close>

text \<open>
  A Python exception is its class and its \<^verbatim>\<open>args\<close> tuple. \<^verbatim>\<open>StringError.__str__\<close>
  returns \<^verbatim>\<open>args[0]\<close> and \<^verbatim>\<open>TemplateError.q_side\<close> returns \<^verbatim>\<open>args[1]\<close>; both raise
  when the tuple is too short, which is \<open>None\<close> here.
\<close>

datatype exception_class =
  Interrupted | StringError | NetworkError | IOError | DBError
  | TemplateError | AnkiWebError | AnkiWebAuthFailed

datatype py_arg = PyStr string | PyBool bool

datatype py_exception = PyException (exc_class: exception_class) (args: "py_arg list")

definition StringError_str :: "py_exception \<Rightarrow> py_arg option" where
  "StringError_str e = (if 0 < length (args e) then Some (args e ! 0) else None)"

definition TemplateError_q_side :: "py_exception \<Rightarrow> py_arg option" where
  "TemplateError_q_side e = (if 1 < length (args e) then Some (args e ! 1) else None)"

text \<open>
  What ends a call without a value: a fatal internal-contract violation, a value that
  protobuf refuses when a message is built, a protobuf decode error, or a raised native
  exception.
\<close>

datatype failure =
  ImpossibleLiteral "string option"
  | ValueError
  | DecodeError
  | Raised py_exception

text \<open>
  Modelled from the spec: \<^verbatim>\<open>assert_impossible_literal\<close> is imported from
  \<^verbatim>\<open>anki.types\<close>, which is not among the sources. The spec calls what happens at an
  unrecognised discriminant a fatal internal-contract violation (a fatal assertion) that
  is distinct from the classified errors; the helper therefore never returns and ends
  the call with \<open>ImpossibleLiteral\<close>, carrying the value it was given.
\<close>

definition assert_impossible_literal :: "string option \<Rightarrow> failure + 'a" where
  "assert_impossible_literal arg = Inl (ImpossibleLiteral arg)"

datatype 'f AVTag =
  SoundOrVideoTag string
  | TTSTag string string "string list" "string list" 'f

record TemplateReplacement =
  field_name :: string
  current_text :: string
  filters :: "string list"

type_synonym TemplateReplacementList = "(string + TemplateReplacement) list"

datatype MediaSyncProgress =
  MediaSyncDownloadedChanges int
  | MediaSyncDownloadedFiles int
  | MediaSyncUploaded int int
  | MediaSyncRemovedFiles int

datatype ProgressKind = ProgressKind_MediaSyncProgress

record Progress =
  kind :: ProgressKind
  val :: MediaSyncProgress

type_synonym AllTemplateReqs = "(int \<times> string \<times> int list) list"

section \<open>Decoding functions\<close>

definition proto_exception_to_native :: "pb_BackendError \<Rightarrow> failure + py_exception" where
  "proto_exception_to_native err =
     (let val = which_error err in
      if val = Some ''interrupted'' then
        Inr (PyException Interrupted [])
      else if val = Some ''network_error'' then
        Inr (PyException NetworkError [PyStr (info (network_error err))])
      else if val = Some ''io_error'' then
        Inr (PyException IOError [PyStr (info (io_error err))])
      else if val = Some ''db_error'' then
        Inr (PyException DBError [PyStr (info (db_error err))])
      else if val = Some ''template_parse'' then
        Inr (PyException TemplateError
               [PyStr (info (template_parse err)), PyBool (q_side (template_parse err))])
      else if val = Some ''invalid_input'' then
        Inr (PyException StringError [PyStr (info (invalid_input err))])
      else if val = Some ''ankiweb_auth_failed'' then
        Inr (PyException AnkiWebAuthFailed [])
      else if val = Some ''ankiweb_misc_error'' then
        Inr (PyException AnkiWebError [PyStr (info (ankiweb_misc_error err))])
      else assert_impossible_literal val)"

text \<open>
  The body of the loop of \<^verbatim>\<open>proto_template_reqs_to_legacy\<close>: one append to
  \<^verbatim>\<open>legacy_reqs\<close> for the pair that \<^verbatim>\<open>enumerate\<close> yields. \<^verbatim>\<open>sorted\<close> is \<open>sort\<close>.
\<close>

definition legacy_reqs_append ::
  "AllTemplateReqs \<Rightarrow> nat \<times> pb_TemplateRequirement \<Rightarrow> AllTemplateReqs" where
  "legacy_reqs_append legacy_reqs p =
     (let idx = fst p; req = snd p; kind = which_req req in
      if kind = Some ''any'' then
        legacy_reqs @ [(int idx, ''any'', sort (ords (req_any req)))]
      else if kind = Some ''all'' then
        legacy_reqs @ [(int idx, ''all'', sort (ords (req_all req)))]
      else
        legacy_reqs @ [(int idx, ''none'', [])])"

definition proto_template_reqs_to_legacy :: "pb_TemplateRequirement list \<Rightarrow> AllTemplateReqs" where
  "proto_template_reqs_to_legacy reqs = foldl legacy_reqs_append [] (enumerate 0 reqs)"

definition av_tag_to_native :: "'f pb_AVTag \<Rightarrow> 'f AVTag" where
  "av_tag_to_native tag =
     (let val = which_tag tag in
      if val = Some ''sound_or_video'' then
        SoundOrVideoTag (sound_or_video tag)
      else
        TTSTag (field_text (tts tag)) (lang (tts tag)) (voices (tts tag))
               (other_args (tts tag)) (speed (tts tag)))"

definition replacement_results_append ::
  "TemplateReplacementList \<Rightarrow> pb_RenderedTemplateNode \<Rightarrow> TemplateReplacementList" where
  "replacement_results_append results node =
     (if which_node node = Some ''text'' then
        results @ [Inl (node_text node)]
      else
        results @ [Inr \<lparr> field_name = pb_field_name (replacement node),
                         current_text = pb_current_text (replacement node),
                         filters = pb_filters (replacement node) \<rparr>])"

definition proto_replacement_list_to_native ::
  "pb_RenderedTemplateNode list \<Rightarrow> TemplateReplacementList" where
  "proto_replacement_list_to_native nodes = foldl replacement_results_append [] nodes"

definition proto_progress_to_native :: "pb_Progress \<Rightarrow> failure + Progress" where
  "proto_progress_to_native progress =
     (let kind = which_progress progress in
      if kind = Some ''media_sync'' then
        (let ikind = which_media_sync (media_sync progress);
             pkind = ProgressKind_MediaSyncProgress in
         if ikind = Some ''downloaded_changes'' then
           Inr \<lparr> kind = pkind,
                 val = MediaSyncDownloadedChanges (downloaded_changes (media_sync progress)) \<rparr>
         else if ikind = Some ''downloaded_files'' then
           Inr \<lparr> kind = pkind,
                 val = MediaSyncDownloadedFiles (downloaded_files (media_sync progress)) \<rparr>
         else if ikind = Some ''uploaded'' then
           (let up = uploaded (media_sync progress) in
            Inr \<lparr> kind = pkind, val = MediaSyncUploaded (files up) (deletions up) \<rparr>)
         else if ikind = Some ''removed_files'' then
           Inr \<lparr> kind = pkind,
                 val = MediaSyncRemovedFiles (removed_files (media_sync progress)) \<rparr>
         else assert_impossible_literal ikind)
      else assert_impossible_literal kind)"

section \<open>The backend handle\<close>

text \<open>
  The input envelope is built by keyword with exactly one member, so it is a datatype
  with one constructor per command; the nested input message of a command is flattened
  into the constructor's arguments. Dictionaries are maps.
\<close>

datatype BackendInput =
  In_template_requirements "string list" "string \<rightharpoonup> int"
  | In_sched_timing_today int int int int int
  | In_render_card string string "string \<rightharpoonup> string" int
  | In_local_minutes_west int
  | In_strip_av_tags string
  | In_extract_av_tags string bool
  | In_expand_clozes_to_reveal_latex string
  | In_add_file_to_media_folder string bytes
  | In_sync_media string string string string

record pb_TemplateRequirementsOut =
  requirements :: "pb_TemplateRequirement list"

record pb_RenderCardOut =
  question_nodes :: "pb_RenderedTemplateNode list"
  answer_nodes :: "pb_RenderedTemplateNode list"

record 'f pb_ExtractAVTagsOut =
  av_text :: string
  av_tags :: "'f pb_AVTag list"

text \<open>
  The output envelope. \<^verbatim>\<open>SchedTimingTodayOut\<close> is handed through as it is, so it is the
  type parameter \<open>'t\<close>.
\<close>

record ('t, 'f) pb_BackendOutput =
  which_output :: "string option"
  out_error :: pb_BackendError
  out_template_requirements :: pb_TemplateRequirementsOut
  out_sched_timing_today :: 't
  out_render_card :: pb_RenderCardOut
  out_local_minutes_west :: int
  out_strip_av_tags :: string
  out_extract_av_tags :: "'f pb_ExtractAVTagsOut"
  out_expand_clozes_to_reveal_latex :: string
  out_add_file_to_media_folder :: string

text \<open>
  The handle. The engine is stateful: \<^verbatim>\<open>command(input_bytes, release_gil)\<close> takes the
  engine's state and gives the output bytes and the state after the call. The protobuf
  library and the schema are outside the module and are the other fields:
  \<open>accepts_input\<close> says whether \<^verbatim>\<open>pb.BackendInput(...)\<close> builds the envelope, which
  raises \<^verbatim>\<open>ValueError\<close> when a value does not fit its field (an integer beyond the
  field's width); \<^verbatim>\<open>SerializeToString\<close> and \<^verbatim>\<open>ParseFromString\<close> are the codec of the
  two envelopes, the latter raising on bytes that are no message, which is \<open>None\<close>.
\<close>

record ('e, 't, 'f) RustBackend =
  accepts_input :: "BackendInput \<Rightarrow> bool"
  SerializeToString :: "BackendInput \<Rightarrow> bytes"
  command :: "'e \<Rightarrow> bytes \<Rightarrow> bool \<Rightarrow> bytes \<times> 'e"
  ParseFromString :: "bytes \<Rightarrow> ('t, 'f) pb_BackendOutput option"

text \<open>
  A method's outcome: the state of the engine after it, and the value it returned or
  the way it failed.
\<close>

type_synonym ('e, 'a) outcome = "'e \<times> (failure + 'a)"

text \<open>Python's \<^verbatim>\<open>raise e\<close> where computing \<^verbatim>\<open>e\<close> may itself fail.\<close>

definition py_raise :: "failure + py_exception \<Rightarrow> failure + 'a" where
  "py_raise r = (case r of Inl f \<Rightarrow> Inl f | Inr e \<Rightarrow> Inl (Raised e))"

definition run_command ::
  "('e, 't, 'f) RustBackend \<Rightarrow> 'e \<Rightarrow> BackendInput \<Rightarrow> bool \<Rightarrow>
     ('e, ('t, 'f) pb_BackendOutput) outcome" where
  "run_command self s input release_gil =
     (let input_bytes = SerializeToString self input;
          reply = command self s input_bytes release_gil;
          output_bytes = fst reply;
          s' = snd reply in
      case ParseFromString self output_bytes of
        None \<Rightarrow> (s', Inl DecodeError)
      | Some output \<Rightarrow>
          (let kind = which_output output in
           if kind = Some ''error'' then
             (s', py_raise (proto_exception_to_native (out_error output)))
           else
             (s', Inr output)))"

text \<open>
  The command methods. Each builds its input envelope, which may raise before any
  engine call, hands it to \<^verbatim>\<open>_run_command\<close>, and reads its own member of the envelope
  that comes back; a method that does not pass \<^verbatim>\<open>release_gil\<close> gets the default
  \<open>False\<close>.
\<close>

definition template_requirements ::
  "('e, 't, 'f) RustBackend \<Rightarrow> 'e \<Rightarrow> string list \<Rightarrow> (string \<rightharpoonup> int) \<Rightarrow>
     ('e, AllTemplateReqs) outcome" where
  "template_requirements self s template_fronts field_map =
     (if accepts_input self (In_template_requirements template_fronts field_map) then
        (let r = run_command self s (In_template_requirements template_fronts field_map) False in
         (fst r, case snd r of
                   Inl f \<Rightarrow> Inl f
                 | Inr output \<Rightarrow>
                     (let reqs = requirements (out_template_requirements output) in
                      Inr (proto_template_reqs_to_legacy reqs))))
      else (s, Inl ValueError))"

definition sched_timing_today ::
  "('e, 't, 'f) RustBackend \<Rightarrow> 'e \<Rightarrow> int \<Rightarrow> int \<Rightarrow> int \<Rightarrow> int \<Rightarrow> int \<Rightarrow>
     ('e, 't) outcome" where
  "sched_timing_today self s created_secs created_mins_west now_secs now_mins_west rollover =
     (if accepts_input self (In_sched_timing_today created_secs created_mins_west now_secs now_mins_west rollover) then
        (let r = run_command self s (In_sched_timing_today created_secs created_mins_west now_secs now_mins_west rollover) False in
         (fst r, case snd r of
                   Inl f \<Rightarrow> Inl f
                 | Inr output \<Rightarrow>
                     Inr (out_sched_timing_today output)))
      else (s, Inl ValueError))"

definition render_card ::
  "('e, 't, 'f) RustBackend \<Rightarrow> 'e \<Rightarrow> string \<Rightarrow> string \<Rightarrow> (string \<rightharpoonup> string) \<Rightarrow> int \<Rightarrow>
     ('e, TemplateReplacementList \<times> TemplateReplacementList) outcome" where
  "render_card self s qfmt afmt fields' card_ord =
     (if accepts_input self (In_render_card qfmt afmt fields' card_ord) then
        (let r = run_command self s (In_render_card qfmt afmt fields' card_ord) False in
         (fst r, case snd r of
                   Inl f \<Rightarrow> Inl f
                 | Inr output \<Rightarrow>
                     (let out = out_render_card output;
                          qnodes = proto_replacement_list_to_native (question_nodes out);
                          anodes = proto_replacement_list_to_native (answer_nodes out) in
                      Inr (qnodes, anodes))))
      else (s, Inl ValueError))"

definition local_minutes_west ::
  "('e, 't, 'f) RustBackend \<Rightarrow> 'e \<Rightarrow> int \<Rightarrow>
     ('e, int) outcome" where
  "local_minutes_west self s stamp =
     (if accepts_input self (In_local_minutes_west stamp) then
        (let r = run_command self s (In_local_minutes_west stamp) False in
         (fst r, case snd r of
                   Inl f \<Rightarrow> Inl f
                 | Inr output \<Rightarrow>
                     Inr (out_local_minutes_west output)))
      else (s, Inl ValueError))"

definition strip_av_tags ::
  "('e, 't, 'f) RustBackend \<Rightarrow> 'e \<Rightarrow> string \<Rightarrow>
     ('e, string) outcome" where
  "strip_av_tags self s text =
     (if accepts_input self (In_strip_av_tags text) then
        (let r = run_command self s (In_strip_av_tags text) False in
         (fst r, case snd r of
                   Inl f \<Rightarrow> Inl f
                 | Inr output \<Rightarrow>
                     Inr (out_strip_av_tags output)))
      else (s, Inl ValueError))"

definition extract_av_tags ::
  "('e, 't, 'f) RustBackend \<Rightarrow> 'e \<Rightarrow> string \<Rightarrow> bool \<Rightarrow>
     ('e, string \<times> 'f AVTag list) outcome" where
  "extract_av_tags self s text question_side =
     (if accepts_input self (In_extract_av_tags text question_side) then
        (let r = run_command self s (In_extract_av_tags text question_side) False in
         (fst r, case snd r of
                   Inl f \<Rightarrow> Inl f
                 | Inr output \<Rightarrow>
                     (let out = out_extract_av_tags output;
                          native_tags = map av_tag_to_native (av_tags out) in
                      Inr (av_text out, native_tags))))
      else (s, Inl ValueError))"

definition expand_clozes_to_reveal_latex ::
  "('e, 't, 'f) RustBackend \<Rightarrow> 'e \<Rightarrow> string \<Rightarrow>
     ('e, string) outcome" where
  "expand_clozes_to_reveal_latex self s text =
     (if accepts_input self (In_expand_clozes_to_reveal_latex text) then
        (let r = run_command self s (In_expand_clozes_to_reveal_latex text) False in
         (fst r, case snd r of
                   Inl f \<Rightarrow> Inl f
                 | Inr output \<Rightarrow>
                     Inr (out_expand_clozes_to_reveal_latex output)))
      else (s, Inl ValueError))"

definition add_file_to_media_folder ::
  "('e, 't, 'f) RustBackend \<Rightarrow> 'e \<Rightarrow> string \<Rightarrow> bytes \<Rightarrow>
     ('e, string) outcome" where
  "add_file_to_media_folder self s desired_name data =
     (if accepts_input self (In_add_file_to_media_folder desired_name data) then
        (let r = run_command self s (In_add_file_to_media_folder desired_name data) False in
         (fst r, case snd r of
                   Inl f \<Rightarrow> Inl f
                 | Inr output \<Rightarrow>
                     Inr (out_add_file_to_media_folder output)))
      else (s, Inl ValueError))"

definition sync_media ::
  "('e, 't, 'f) RustBackend \<Rightarrow> 'e \<Rightarrow> string \<Rightarrow> string \<Rightarrow> string \<Rightarrow> string \<Rightarrow>
     ('e, unit) outcome" where
  "sync_media self s hkey media_folder media_db endpoint =
     (if accepts_input self (In_sync_media hkey media_folder media_db endpoint) then
        (let r = run_command self s (In_sync_media hkey media_folder media_db endpoint) True in
         (fst r, case snd r of
                   Inl f \<Rightarrow> Inl f
                 | Inr output \<Rightarrow>
                     Inr ()))
      else (s, Inl ValueError))"

text \<open>
  The progress callback. The parser of the progress message and the hook
  \<^verbatim>\<open>hooks.rust_progress_callback\<close>, through which the registered observer is reached,
  are outside the module and are parameters.
\<close>

definition on_progress ::
  "(bytes \<Rightarrow> pb_Progress option) \<Rightarrow> (bool \<Rightarrow> Progress \<Rightarrow> bool) \<Rightarrow> bytes \<Rightarrow> failure + bool" where
  "on_progress ParseProgress rust_progress_callback progress_bytes =
     (case ParseProgress progress_bytes of
        None \<Rightarrow> Inl DecodeError
      | Some progress \<Rightarrow>
          (case proto_progress_to_native progress of
             Inl f \<Rightarrow> Inl f
           | Inr native_progress \<Rightarrow> Inr (rust_progress_callback True native_progress)))"

text \<open>
  The response envelope that \<^verbatim>\<open>_run_command\<close> decodes for an input at an engine
  state: the input is serialised, the engine is called, the bytes it returns are parsed.
\<close>

definition decoded_response ::
  "('e, 't, 'f) RustBackend \<Rightarrow> 'e \<Rightarrow> BackendInput \<Rightarrow> bool \<Rightarrow>
     ('t, 'f) pb_BackendOutput option" where
  "decoded_response self s input release_gil =
     ParseFromString self (fst (command self s (SerializeToString self input) release_gil))"

section \<open>Concrete messages used as instances\<close>

text \<open>
  \<open>wire_error k msg q\<close> is the wire error whose union member \<open>k\<close> is the one set, with
  message \<open>msg\<close> (and question-side flag \<open>q\<close> for \<^verbatim>\<open>template_parse\<close>); every other
  member reads as its default. \<open>unset_error\<close> has no member set.
\<close>

definition wire_error :: "string \<Rightarrow> string \<Rightarrow> bool \<Rightarrow> pb_BackendError" where
  "wire_error k msg q =
     \<lparr> which_error = Some k,
       network_error = \<lparr> info = (if k = ''network_error'' then msg else []) \<rparr>,
       io_error = \<lparr> info = (if k = ''io_error'' then msg else []) \<rparr>,
       db_error = \<lparr> info = (if k = ''db_error'' then msg else []) \<rparr>,
       template_parse = \<lparr> info = (if k = ''template_parse'' then msg else []),
                          q_side = (k = ''template_parse'' \<and> q) \<rparr>,
       invalid_input = \<lparr> info = (if k = ''invalid_input'' then msg else []) \<rparr>,
       ankiweb_misc_error = \<lparr> info = (if k = ''ankiweb_misc_error'' then msg else []) \<rparr> \<rparr>"

definition unset_error :: pb_BackendError where
  "unset_error =
     \<lparr> which_error = None,
       network_error = \<lparr> info = [] \<rparr>,
       io_error = \<lparr> info = [] \<rparr>,
       db_error = \<lparr> info = [] \<rparr>,
       template_parse = \<lparr> info = [], q_side = False \<rparr>,
       invalid_input = \<lparr> info = [] \<rparr>,
       ankiweb_misc_error = \<lparr> info = [] \<rparr> \<rparr>"

text \<open>
  Three wire requirements: \<^verbatim>\<open>any\<close> with a repeated ordinal, \<^verbatim>\<open>none\<close>, and \<^verbatim>\<open>all\<close>.
\<close>

definition duplicate_ords_reqs :: "pb_TemplateRequirement list" where
  "duplicate_ords_reqs =
     [\<lparr> which_req = Some ''any'', req_any = \<lparr> ords = [2, 1, 2] \<rparr>, req_all = \<lparr> ords = [] \<rparr> \<rparr>,
      \<lparr> which_req = Some ''none'', req_any = \<lparr> ords = [] \<rparr>, req_all = \<lparr> ords = [] \<rparr> \<rparr>,
      \<lparr> which_req = Some ''all'', req_any = \<lparr> ords = [] \<rparr>, req_all = \<lparr> ords = [3, 0] \<rparr> \<rparr>]"

text \<open>
  An AV tag and a rendered node with no member set, and the same with a discriminant
  that names a member the module does not know.
\<close>

definition unset_tag :: "real pb_AVTag" where
  "unset_tag =
     \<lparr> which_tag = None,
       sound_or_video = [],
       tts = \<lparr> field_text = [], lang = [], voices = [], other_args = [], speed = 0 \<rparr> \<rparr>"

definition unknown_tag :: "string \<Rightarrow> real pb_AVTag" where
  "unknown_tag k = unset_tag \<lparr> which_tag := Some k \<rparr>"

definition unset_node :: pb_RenderedTemplateNode where
  "unset_node =
     \<lparr> which_node = None,
       node_text = [],
       replacement = \<lparr> pb_field_name = [], pb_current_text = [], pb_filters = [] \<rparr> \<rparr>"

definition unknown_node :: "string \<Rightarrow> pb_RenderedTemplateNode" where
  "unknown_node k = unset_node \<lparr> which_node := Some k \<rparr>"

text \<open>
  \<open>wire_progress k ik n m\<close> is the progress message with outer discriminant \<open>k\<close> and,
  when that is \<^verbatim>\<open>media_sync\<close>, inner discriminant \<open>ik\<close> with the counts \<open>n\<close> and \<open>m\<close>
  in the member that \<open>ik\<close> names; every other member reads as its default.
\<close>

definition wire_media_sync :: "string option \<Rightarrow> int \<Rightarrow> int \<Rightarrow> pb_MediaSyncProgress" where
  "wire_media_sync ik n m =
     \<lparr> which_media_sync = ik,
       downloaded_changes = (if ik = Some ''downloaded_changes'' then n else 0),
       downloaded_files = (if ik = Some ''downloaded_files'' then n else 0),
       uploaded = \<lparr> files = (if ik = Some ''uploaded'' then n else 0),
                    deletions = (if ik = Some ''uploaded'' then m else 0) \<rparr>,
       removed_files = (if ik = Some ''removed_files'' then n else 0) \<rparr>"

definition wire_progress :: "string option \<Rightarrow> string option \<Rightarrow> int \<Rightarrow> int \<Rightarrow> pb_Progress" where
  "wire_progress k ik n m =
     \<lparr> which_progress = k,
       media_sync = (if k = Some ''media_sync'' then wire_media_sync ik n m
                     else wire_media_sync None 0 0) \<rparr>"

text \<open>
  A progress parser that reads every non-empty byte string as
  \<^verbatim>\<open>{media_sync: {uploaded: {files: 3, deletions: 1}}}\<close>, and two observers: one that
  asks for an interrupt once something was uploaded, one that always continues.
\<close>

definition parse_upload_progress :: "bytes \<Rightarrow> pb_Progress option" where
  "parse_upload_progress progress_bytes =
     (if progress_bytes = [] then None
      else Some (wire_progress (Some ''media_sync'') (Some ''uploaded'') 3 1))"

definition stop_after_upload :: "bool \<Rightarrow> Progress \<Rightarrow> bool" where
  "stop_after_upload proceed progress =
     (case val progress of MediaSyncUploaded f d \<Rightarrow> False | _ \<Rightarrow> proceed)"

definition always_continue :: "bool \<Rightarrow> Progress \<Rightarrow> bool" where
  "always_continue proceed progress = proceed"

text \<open>
  Response envelopes: one with no member set, one whose \<^verbatim>\<open>sched_timing_today\<close> member
  is set, one whose \<^verbatim>\<open>error\<close> member is set. \<open>answering output\<close> is a handle whose
  engine answers every command with \<open>output\<close> and whose state is the list of the calls
  made to it, each with its bytes and its flag; it builds every envelope except one
  whose timestamp is outside the signed 64-bit range.
\<close>

definition unset_output :: "(int \<times> int, real) pb_BackendOutput" where
  "unset_output =
     \<lparr> which_output = None,
       out_error = unset_error,
       out_template_requirements = \<lparr> requirements = [] \<rparr>,
       out_sched_timing_today = (0, 0),
       out_render_card = \<lparr> question_nodes = [], answer_nodes = [] \<rparr>,
       out_local_minutes_west = 0,
       out_strip_av_tags = [],
       out_extract_av_tags = \<lparr> av_text = [], av_tags = [] \<rparr>,
       out_expand_clozes_to_reveal_latex = [],
       out_add_file_to_media_folder = [] \<rparr>"

definition timing_output :: "(int \<times> int, real) pb_BackendOutput" where
  "timing_output =
     unset_output \<lparr> which_output := Some ''sched_timing_today'',
                    out_sched_timing_today := (5, 1600000000) \<rparr>"

definition error_output :: "pb_BackendError \<Rightarrow> (int \<times> int, real) pb_BackendOutput" where
  "error_output err = unset_output \<lparr> which_output := Some ''error'', out_error := err \<rparr>"

definition fits_schema :: "BackendInput \<Rightarrow> bool" where
  "fits_schema input =
     (case input of
        In_local_minutes_west stamp \<Rightarrow> - (2 ^ 63) \<le> stamp \<and> stamp < 2 ^ 63
      | _ \<Rightarrow> True)"

definition answering ::
  "(int \<times> int, real) pb_BackendOutput \<Rightarrow>
     ((bytes \<times> bool) list, int \<times> int, real) RustBackend" where
  "answering output =
     \<lparr> accepts_input = fits_schema,
       SerializeToString = (\<lambda>input. [0]),
       command = (\<lambda>s input_bytes release_gil. ([1], s @ [(input_bytes, release_gil)])),
       ParseFromString = (\<lambda>output_bytes. if output_bytes = [1] then Some output else None) \<rparr>"

section \<open>The loops as maps\<close>

lemma foldl_replacement_results_append:
  "foldl replacement_results_append results nodes
     = results @ map (\<lambda>node. if which_node node = Some ''text'' then Inl (node_text node)
                        else Inr \<lparr> field_name = pb_field_name (replacement node),
                                   current_text = pb_current_text (replacement node),
                                   filters = pb_filters (replacement node) \<rparr>) nodes"
  by (induction nodes arbitrary: results) (simp_all add: replacement_results_append_def)

lemma proto_replacement_list_to_native_map:
  "proto_replacement_list_to_native nodes
     = map (\<lambda>node. if which_node node = Some ''text'' then Inl (node_text node)
                        else Inr \<lparr> field_name = pb_field_name (replacement node),
                                   current_text = pb_current_text (replacement node),
                                   filters = pb_filters (replacement node) \<rparr>) nodes"
  by (simp add: proto_replacement_list_to_native_def foldl_replacement_results_append)

lemma foldl_legacy_reqs_append:
  "foldl legacy_reqs_append legacy_reqs ps
     = legacy_reqs @ map (\<lambda>p. if which_req (snd p) = Some ''any''
                               then (int (fst p), ''any'', sort (ords (req_any (snd p))))
                               else if which_req (snd p) = Some ''all''
                               then (int (fst p), ''all'', sort (ords (req_all (snd p))))
                               else (int (fst p), ''none'', [])) ps"
  by (induction ps arbitrary: legacy_reqs) (simp_all add: legacy_reqs_append_def Let_def)

lemma proto_template_reqs_to_legacy_map:
  "proto_template_reqs_to_legacy reqs
     = map (\<lambda>p. if which_req (snd p) = Some ''any''
                 then (int (fst p), ''any'', sort (ords (req_any (snd p))))
                 else if which_req (snd p) = Some ''all''
                 then (int (fst p), ''all'', sort (ords (req_all (snd p))))
                 else (int (fst p), ''none'', [])) (enumerate 0 reqs)"
  by (simp add: proto_template_reqs_to_legacy_def foldl_legacy_reqs_append)

lemma length_proto_template_reqs_to_legacy:
  "length (proto_template_reqs_to_legacy reqs) = length reqs"
  by (simp add: proto_template_reqs_to_legacy_map)

lemma nth_proto_template_reqs_to_legacy:
  assumes "i < length reqs"
  shows "proto_template_reqs_to_legacy reqs ! i
     = (if which_req (reqs ! i) = Some ''any''
        then (int i, ''any'', sort (ords (req_any (reqs ! i))))
        else if which_req (reqs ! i) = Some ''all''
        then (int i, ''all'', sort (ords (req_all (reqs ! i))))
        else (int i, ''none'', []))"
  using assms by (simp add: proto_template_reqs_to_legacy_map nth_enumerate_eq)

lemma proto_template_reqs_to_legacy_duplicate_ords:
  "proto_template_reqs_to_legacy duplicate_ords_reqs
     = [(0, ''any'', [1, 2, 2]), (1, ''none'', []), (2, ''all'', [0, 3])]"
  by (simp add: duplicate_ords_reqs_def proto_template_reqs_to_legacy_def
      legacy_reqs_append_def enumerate_eq_zip upt_rec)

section \<open>The dispatcher, unfolded\<close>

lemma fst_run_command:
  "fst (run_command self s input release_gil)
     = snd (command self s (SerializeToString self input) release_gil)"
  by (simp add: run_command_def Let_def split: option.split)

lemma snd_run_command:
  "snd (run_command self s input release_gil)
     = (case decoded_response self s input release_gil of
          None \<Rightarrow> Inl DecodeError
        | Some output \<Rightarrow>
            if which_output output = Some ''error''
            then py_raise (proto_exception_to_native (out_error output))
            else Inr output)"
  by (simp add: run_command_def decoded_response_def Let_def split: option.split)

lemma decoded_response_answering:
  "decoded_response (answering output) s input release_gil = Some output"
  by (simp add: decoded_response_def answering_def)

lemma command_answering:
  "snd (command (answering output) s (SerializeToString (answering output) input) release_gil)
     = s @ [([0], release_gil)]"
  by (simp add: answering_def)

lemma proto_exception_to_native_known:
  assumes "which_error err \<in> Some ` set [''interrupted'', ''network_error'', ''io_error'',
             ''db_error'', ''template_parse'', ''invalid_input'', ''ankiweb_auth_failed'',
             ''ankiweb_misc_error'']"
  shows "\<exists>e. proto_exception_to_native err = Inr e"
  using assms by (auto simp add: proto_exception_to_native_def)

lemma proto_exception_to_native_unknown:
  assumes "which_error err \<notin> Some ` set [''interrupted'', ''network_error'', ''io_error'',
             ''db_error'', ''template_parse'', ''invalid_input'', ''ankiweb_auth_failed'',
             ''ankiweb_misc_error'']"
  shows "proto_exception_to_native err = Inl (ImpossibleLiteral (which_error err))"
  using assms
  by (auto simp add: proto_exception_to_native_def assert_impossible_literal_def Let_def)

section \<open>The error classifier\<close>

text \<open>
  Claim C3. For each of the eight fixed kinds the classifier returns the exception of the
  matching class. Where the wire error carries a message (\<^verbatim>\<open>network_error\<close>,
  \<^verbatim>\<open>io_error\<close>, \<^verbatim>\<open>db_error\<close>, \<^verbatim>\<open>template_parse\<close>, \<^verbatim>\<open>invalid_input\<close>,
  \<^verbatim>\<open>ankiweb_misc_error\<close>) the exception's first argument, which is what its
  \<^verbatim>\<open>__str__\<close> returns, is that message unchanged. For \<^verbatim>\<open>template_parse\<close> the
  question-side flag is the second argument, read by the accessor \<^verbatim>\<open>q_side\<close>, and the
  message is the \<^verbatim>\<open>info\<close> string alone. \<^verbatim>\<open>ankiweb_auth_failed\<close> gives an exception
  without arguments, and so does \<^verbatim>\<open>interrupted\<close>, for which the module reads no message.
\<close>

theorem classify_fixed_kinds:
  "(which_error err = Some ''interrupted'' \<longrightarrow>
      proto_exception_to_native err = Inr (PyException Interrupted []))
   \<and> (which_error err = Some ''network_error'' \<longrightarrow>
      (\<exists>e. proto_exception_to_native err = Inr e
           \<and> e = PyException NetworkError [PyStr (info (network_error err))]
           \<and> StringError_str e = Some (PyStr (info (network_error err)))))
   \<and> (which_error err = Some ''io_error'' \<longrightarrow>
      (\<exists>e. proto_exception_to_native err = Inr e
           \<and> e = PyException IOError [PyStr (info (io_error err))]
           \<and> StringError_str e = Some (PyStr (info (io_error err)))))
   \<and> (which_error err = Some ''db_error'' \<longrightarrow>
      (\<exists>e. proto_exception_to_native err = Inr e
           \<and> e = PyException DBError [PyStr (info (db_error err))]
           \<and> StringError_str e = Some (PyStr (info (db_error err)))))
   \<and> (which_error err = Some ''template_parse'' \<longrightarrow>
      (\<exists>e. proto_exception_to_native err = Inr e
           \<and> e = PyException TemplateError
                   [PyStr (info (template_parse err)), PyBool (q_side (template_parse err))]
           \<and> StringError_str e = Some (PyStr (info (template_parse err)))
           \<and> TemplateError_q_side e = Some (PyBool (q_side (template_parse err)))))
   \<and> (which_error err = Some ''invalid_input'' \<longrightarrow>
      (\<exists>e. proto_exception_to_native err = Inr e
           \<and> e = PyException StringError [PyStr (info (invalid_input err))]
           \<and> StringError_str e = Some (PyStr (info (invalid_input err)))))
   \<and> (which_error err = Some ''ankiweb_auth_failed'' \<longrightarrow>
      proto_exception_to_native err = Inr (PyException AnkiWebAuthFailed []))
   \<and> (which_error err = Some ''ankiweb_misc_error'' \<longrightarrow>
      (\<exists>e. proto_exception_to_native err = Inr e
           \<and> e = PyException AnkiWebError [PyStr (info (ankiweb_misc_error err))]
           \<and> StringError_str e = Some (PyStr (info (ankiweb_misc_error err)))))"
  by (simp add: proto_exception_to_native_def StringError_str_def TemplateError_q_side_def)

theorem classify_fixed_kinds_witness:
  "proto_exception_to_native (wire_error ''interrupted'' [] False)
     = Inr (PyException Interrupted [])
   \<and> proto_exception_to_native (wire_error ''network_error'' ''net down'' False)
     = Inr (PyException NetworkError [PyStr ''net down''])
   \<and> proto_exception_to_native (wire_error ''io_error'' ''disk full'' False)
     = Inr (PyException IOError [PyStr ''disk full''])
   \<and> proto_exception_to_native (wire_error ''db_error'' ''locked'' False)
     = Inr (PyException DBError [PyStr ''locked''])
   \<and> proto_exception_to_native (wire_error ''template_parse'' ''bad tag'' True)
     = Inr (PyException TemplateError [PyStr ''bad tag'', PyBool True])
   \<and> StringError_str (PyException TemplateError [PyStr ''bad tag'', PyBool True])
     = Some (PyStr ''bad tag'')
   \<and> TemplateError_q_side (PyException TemplateError [PyStr ''bad tag'', PyBool True])
     = Some (PyBool True)
   \<and> proto_exception_to_native (wire_error ''invalid_input'' ''bad input'' False)
     = Inr (PyException StringError [PyStr ''bad input''])
   \<and> proto_exception_to_native (wire_error ''ankiweb_auth_failed'' [] False)
     = Inr (PyException AnkiWebAuthFailed [])
   \<and> proto_exception_to_native (wire_error ''ankiweb_misc_error'' ''server busy'' False)
     = Inr (PyException AnkiWebError [PyStr ''server busy''])"
  using classify_fixed_kinds [of "wire_error ''interrupted'' [] False"]
    classify_fixed_kinds [of "wire_error ''network_error'' ''net down'' False"]
    classify_fixed_kinds [of "wire_error ''io_error'' ''disk full'' False"]
    classify_fixed_kinds [of "wire_error ''db_error'' ''locked'' False"]
    classify_fixed_kinds [of "wire_error ''template_parse'' ''bad tag'' True"]
    classify_fixed_kinds [of "wire_error ''invalid_input'' ''bad input'' False"]
    classify_fixed_kinds [of "wire_error ''ankiweb_auth_failed'' [] False"]
    classify_fixed_kinds [of "wire_error ''ankiweb_misc_error'' ''server busy'' False"]
  by (simp add: wire_error_def StringError_str_def TemplateError_q_side_def)

text \<open>
  Claim C7. A wire error whose discriminant is none of the eight fixed kinds (an unset
  union included) ends the classifier in the fatal internal-contract violation, carrying
  the discriminant; no exception value is returned, of any class.
\<close>

theorem classify_unknown_kind_is_fatal:
  assumes "which_error err \<notin> Some ` set [''interrupted'', ''network_error'', ''io_error'',
             ''db_error'', ''template_parse'', ''invalid_input'', ''ankiweb_auth_failed'',
             ''ankiweb_misc_error'']"
  shows "proto_exception_to_native err = Inl (ImpossibleLiteral (which_error err))
         \<and> (\<forall>e. proto_exception_to_native err \<noteq> Inr e)"
  using assms
  by (auto simp add: proto_exception_to_native_def assert_impossible_literal_def Let_def)

theorem classify_unknown_kind_is_fatal_witness:
  "which_error (wire_error ''sync_conflict'' [] False)
     \<notin> Some ` set [''interrupted'', ''network_error'', ''io_error'',
             ''db_error'', ''template_parse'', ''invalid_input'', ''ankiweb_auth_failed'',
             ''ankiweb_misc_error'']
   \<and> proto_exception_to_native (wire_error ''sync_conflict'' [] False)
     = Inl (ImpossibleLiteral (Some ''sync_conflict''))
   \<and> which_error unset_error
     \<notin> Some ` set [''interrupted'', ''network_error'', ''io_error'',
             ''db_error'', ''template_parse'', ''invalid_input'', ''ankiweb_auth_failed'',
             ''ankiweb_misc_error'']
   \<and> proto_exception_to_native unset_error = Inl (ImpossibleLiteral None)"
proof -
  have unknown: "which_error (wire_error ''sync_conflict'' [] False)
     \<notin> Some ` set [''interrupted'', ''network_error'', ''io_error'',
             ''db_error'', ''template_parse'', ''invalid_input'', ''ankiweb_auth_failed'',
             ''ankiweb_misc_error'']"
    by (simp add: wire_error_def)
  have unset: "which_error unset_error
     \<notin> Some ` set [''interrupted'', ''network_error'', ''io_error'',
             ''db_error'', ''template_parse'', ''invalid_input'', ''ankiweb_auth_failed'',
             ''ankiweb_misc_error'']"
    by (simp add: unset_error_def)
  have w1: "which_error (wire_error ''sync_conflict'' [] False) = Some ''sync_conflict''"
    by (simp add: wire_error_def)
  have w2: "which_error unset_error = None"
    by (simp add: unset_error_def)
  show ?thesis
    using unknown unset classify_unknown_kind_is_fatal [OF unknown]
      classify_unknown_kind_is_fatal [OF unset]
    by (simp only: w1 w2 simp_thms)
qed

section \<open>Template requirements\<close>

text \<open>
  Claim C4, as amended. Each decoded \<^verbatim>\<open>any\<close> or \<^verbatim>\<open>all\<close> requirement carries the wire
  ordinals sorted ascending with every duplicate kept (the same multiset), so its list
  is duplicate-free exactly when the wire ordinals were; a requirement of any other
  discriminant decodes to \<^verbatim>\<open>none\<close> with an empty list whatever ordinals the wire form
  carried. Hence every decoded list is sorted and every \<^verbatim>\<open>none\<close> entry is empty.
\<close>

theorem template_reqs_ords_sorted_keep_duplicates:
  assumes "i < length reqs"
  shows "(which_req (reqs ! i) = Some ''any'' \<longrightarrow>
            (\<exists>os. proto_template_reqs_to_legacy reqs ! i = (int i, ''any'', os)
                 \<and> sorted os \<and> mset os = mset (ords (req_any (reqs ! i)))
                 \<and> (distinct os \<longleftrightarrow> distinct (ords (req_any (reqs ! i))))))
       \<and> (which_req (reqs ! i) = Some ''all'' \<longrightarrow>
            (\<exists>os. proto_template_reqs_to_legacy reqs ! i = (int i, ''all'', os)
                 \<and> sorted os \<and> mset os = mset (ords (req_all (reqs ! i)))
                 \<and> (distinct os \<longleftrightarrow> distinct (ords (req_all (reqs ! i))))))
       \<and> (which_req (reqs ! i) \<noteq> Some ''any'' \<and> which_req (reqs ! i) \<noteq> Some ''all'' \<longrightarrow>
            proto_template_reqs_to_legacy reqs ! i = (int i, ''none'', []))
       \<and> sorted (snd (snd (proto_template_reqs_to_legacy reqs ! i)))
       \<and> (fst (snd (proto_template_reqs_to_legacy reqs ! i)) = ''none'' \<longrightarrow>
            snd (snd (proto_template_reqs_to_legacy reqs ! i)) = [])"
  using assms by (simp add: nth_proto_template_reqs_to_legacy)

theorem template_reqs_ords_sorted_keep_duplicates_witness:
  "(2::nat) < length duplicate_ords_reqs
   \<and> which_req (duplicate_ords_reqs ! 2) = Some ''all''
   \<and> proto_template_reqs_to_legacy duplicate_ords_reqs ! 2 = (2, ''all'', [0, 3])
   \<and> sorted [0, 3 :: int]"
proof -
  have len: "(2::nat) < length duplicate_ords_reqs"
    by (simp add: duplicate_ords_reqs_def)
  have all_kind: "which_req (duplicate_ords_reqs ! 2) = Some ''all''"
    by (simp add: duplicate_ords_reqs_def)
  show ?thesis
    using len all_kind template_reqs_ords_sorted_keep_duplicates [OF len]
    by (simp add: proto_template_reqs_to_legacy_duplicate_ords)
qed

text \<open>
  The claim as stated fails: wire ordinals \<open>[2, 1, 2]\<close> under \<^verbatim>\<open>any\<close> decode to
  \<open>[1, 2, 2]\<close>, which is sorted but not duplicate-free.
\<close>

theorem template_reqs_ords_duplicates_kept:
  "which_req (duplicate_ords_reqs ! 0) = Some ''any''
   \<and> proto_template_reqs_to_legacy duplicate_ords_reqs ! 0 = (0, ''any'', [1, 2, 2])
   \<and> \<not> distinct (snd (snd (proto_template_reqs_to_legacy duplicate_ords_reqs ! 0)))"
  by (simp add: proto_template_reqs_to_legacy_duplicate_ords) (simp add: duplicate_ords_reqs_def)

text \<open>
  Claim C10. The decoded list is as long as the input list and the index component of
  its \<open>i\<close>-th element is \<open>i\<close>.
\<close>

theorem template_reqs_indices:
  "length (proto_template_reqs_to_legacy reqs) = length reqs
   \<and> (\<forall>i < length reqs. fst (proto_template_reqs_to_legacy reqs ! i) = int i)"
  by (simp add: length_proto_template_reqs_to_legacy nth_proto_template_reqs_to_legacy)

theorem template_reqs_indices_witness:
  "length (proto_template_reqs_to_legacy duplicate_ords_reqs) = 3
   \<and> (1::nat) < length duplicate_ords_reqs
   \<and> fst (proto_template_reqs_to_legacy duplicate_ords_reqs ! 1) = 1"
proof -
  have len: "(1::nat) < length duplicate_ords_reqs"
    by (simp add: duplicate_ords_reqs_def)
  have three: "length duplicate_ords_reqs = 3"
    by (simp add: duplicate_ords_reqs_def)
  show ?thesis
    using len three template_reqs_indices [of duplicate_ords_reqs]
    by auto
qed

section \<open>The progress channel\<close>

text \<open>
  Claim C6. A progress message whose discriminant is \<^verbatim>\<open>media_sync\<close> and whose inner
  discriminant is one of the four subkinds decodes to the value tagged with that subkind,
  with the numbers of the wire message; any other inner discriminant, and any other outer
  discriminant, ends the decoding in the fatal internal-contract violation.
\<close>

theorem progress_decoding:
  "(which_progress p = Some ''media_sync''
      \<and> which_media_sync (media_sync p) = Some ''downloaded_changes'' \<longrightarrow>
      proto_progress_to_native p
        = Inr \<lparr> kind = ProgressKind_MediaSyncProgress,
                val = MediaSyncDownloadedChanges (downloaded_changes (media_sync p)) \<rparr>)
   \<and> (which_progress p = Some ''media_sync''
      \<and> which_media_sync (media_sync p) = Some ''downloaded_files'' \<longrightarrow>
      proto_progress_to_native p
        = Inr \<lparr> kind = ProgressKind_MediaSyncProgress,
                val = MediaSyncDownloadedFiles (downloaded_files (media_sync p)) \<rparr>)
   \<and> (which_progress p = Some ''media_sync''
      \<and> which_media_sync (media_sync p) = Some ''uploaded'' \<longrightarrow>
      proto_progress_to_native p
        = Inr \<lparr> kind = ProgressKind_MediaSyncProgress,
                val = MediaSyncUploaded (files (uploaded (media_sync p)))
                        (deletions (uploaded (media_sync p))) \<rparr>)
   \<and> (which_progress p = Some ''media_sync''
      \<and> which_media_sync (media_sync p) = Some ''removed_files'' \<longrightarrow>
      proto_progress_to_native p
        = Inr \<lparr> kind = ProgressKind_MediaSyncProgress,
                val = MediaSyncRemovedFiles (removed_files (media_sync p)) \<rparr>)
   \<and> (which_progress p = Some ''media_sync''
      \<and> which_media_sync (media_sync p)
          \<notin> Some ` set [''downloaded_changes'', ''downloaded_files'', ''uploaded'',
                        ''removed_files''] \<longrightarrow>
      proto_progress_to_native p = Inl (ImpossibleLiteral (which_media_sync (media_sync p))))
   \<and> (which_progress p \<noteq> Some ''media_sync'' \<longrightarrow>
      proto_progress_to_native p = Inl (ImpossibleLiteral (which_progress p)))"
  by (auto simp add: proto_progress_to_native_def assert_impossible_literal_def Let_def)

theorem progress_decoding_witness:
  "proto_progress_to_native (wire_progress (Some ''media_sync'') (Some ''downloaded_changes'') 7 0)
     = Inr \<lparr> kind = ProgressKind_MediaSyncProgress, val = MediaSyncDownloadedChanges 7 \<rparr>
   \<and> proto_progress_to_native (wire_progress (Some ''media_sync'') (Some ''downloaded_files'') 5 0)
     = Inr \<lparr> kind = ProgressKind_MediaSyncProgress, val = MediaSyncDownloadedFiles 5 \<rparr>
   \<and> proto_progress_to_native (wire_progress (Some ''media_sync'') (Some ''uploaded'') 3 1)
     = Inr \<lparr> kind = ProgressKind_MediaSyncProgress, val = MediaSyncUploaded 3 1 \<rparr>
   \<and> proto_progress_to_native (wire_progress (Some ''media_sync'') (Some ''removed_files'') 2 0)
     = Inr \<lparr> kind = ProgressKind_MediaSyncProgress, val = MediaSyncRemovedFiles 2 \<rparr>
   \<and> proto_progress_to_native (wire_progress (Some ''media_sync'') (Some ''checked'') 0 0)
     = Inl (ImpossibleLiteral (Some ''checked''))
   \<and> proto_progress_to_native (wire_progress (Some ''media_sync'') None 0 0)
     = Inl (ImpossibleLiteral None)
   \<and> proto_progress_to_native (wire_progress (Some ''full_sync'') None 0 0)
     = Inl (ImpossibleLiteral (Some ''full_sync''))
   \<and> proto_progress_to_native (wire_progress None None 0 0) = Inl (ImpossibleLiteral None)"
  using progress_decoding [of "wire_progress (Some ''media_sync'') (Some ''downloaded_changes'') 7 0"]
    progress_decoding [of "wire_progress (Some ''media_sync'') (Some ''downloaded_files'') 5 0"]
    progress_decoding [of "wire_progress (Some ''media_sync'') (Some ''uploaded'') 3 1"]
    progress_decoding [of "wire_progress (Some ''media_sync'') (Some ''removed_files'') 2 0"]
    progress_decoding [of "wire_progress (Some ''media_sync'') (Some ''checked'') 0 0"]
    progress_decoding [of "wire_progress (Some ''media_sync'') None 0 0"]
    progress_decoding [of "wire_progress (Some ''full_sync'') None 0 0"]
    progress_decoding [of "wire_progress None None 0 0"]
  by (simp add: wire_progress_def wire_media_sync_def)

text \<open>
  Claim C8. When the progress bytes parse and the message decodes to an event, the
  callback returns to the engine exactly the boolean that the observer, called through
  the hook with \<open>True\<close> and that event, returned.
\<close>

theorem on_progress_returns_observer_result:
  assumes "ParseProgress progress_bytes = Some progress"
    and "proto_progress_to_native progress = Inr native_progress"
  shows "on_progress ParseProgress rust_progress_callback progress_bytes
           = Inr (rust_progress_callback True native_progress)"
  using assms by (simp add: on_progress_def)

theorem on_progress_returns_observer_result_witness:
  "parse_upload_progress [1] = Some (wire_progress (Some ''media_sync'') (Some ''uploaded'') 3 1)
   \<and> proto_progress_to_native (wire_progress (Some ''media_sync'') (Some ''uploaded'') 3 1)
       = Inr \<lparr> kind = ProgressKind_MediaSyncProgress, val = MediaSyncUploaded 3 1 \<rparr>
   \<and> on_progress parse_upload_progress stop_after_upload [1] = Inr False
   \<and> on_progress parse_upload_progress always_continue [1] = Inr True"
proof -
  have parsed: "parse_upload_progress [1]
                  = Some (wire_progress (Some ''media_sync'') (Some ''uploaded'') 3 1)"
    by (simp add: parse_upload_progress_def)
  have decoded: "proto_progress_to_native (wire_progress (Some ''media_sync'') (Some ''uploaded'') 3 1)
                   = Inr \<lparr> kind = ProgressKind_MediaSyncProgress, val = MediaSyncUploaded 3 1 \<rparr>"
    by (simp add: proto_progress_to_native_def wire_progress_def wire_media_sync_def)
  show ?thesis
    using parsed decoded
      on_progress_returns_observer_result
        [where ParseProgress = parse_upload_progress and progress_bytes = "[1]"
           and rust_progress_callback = stop_after_upload, OF parsed decoded]
      on_progress_returns_observer_result
        [where ParseProgress = parse_upload_progress and progress_bytes = "[1]"
           and rust_progress_callback = always_continue, OF parsed decoded]
    by (simp add: stop_after_upload_def always_continue_def)
qed

section \<open>The command dispatcher\<close>

text \<open>
  Claim C9. For every engine and every state of it, the state after a command method
  is the state after exactly one engine call on the method's serialised envelope:
  with \<^verbatim>\<open>release_gil\<close> true for \<^verbatim>\<open>sync_media\<close>, and with the flag false for each of
  the eight other methods. When the envelope cannot be built the engine is not called
  at all and its state is unchanged.
\<close>

theorem only_sync_media_releases_lock:
  "fst (sync_media self s hkey media_folder media_db endpoint)
     = (if accepts_input self (In_sync_media hkey media_folder media_db endpoint)
        then snd (command self s
                    (SerializeToString self (In_sync_media hkey media_folder media_db endpoint))
                    True)
        else s)
   \<and> fst (template_requirements self s template_fronts field_map)
     = (if accepts_input self (In_template_requirements template_fronts field_map)
        then snd (command self s
                    (SerializeToString self (In_template_requirements template_fronts field_map))
                    False)
        else s)
   \<and> fst (sched_timing_today self s created_secs created_mins_west now_secs now_mins_west
             rollover)
     = (if accepts_input self
             (In_sched_timing_today created_secs created_mins_west now_secs now_mins_west
                rollover)
        then snd (command self s
                    (SerializeToString self
                       (In_sched_timing_today created_secs created_mins_west now_secs
                          now_mins_west rollover))
                    False)
        else s)
   \<and> fst (render_card self s qfmt afmt fields' card_ord)
     = (if accepts_input self (In_render_card qfmt afmt fields' card_ord)
        then snd (command self s
                    (SerializeToString self (In_render_card qfmt afmt fields' card_ord)) False)
        else s)
   \<and> fst (local_minutes_west self s stamp)
     = (if accepts_input self (In_local_minutes_west stamp)
        then snd (command self s (SerializeToString self (In_local_minutes_west stamp)) False)
        else s)
   \<and> fst (strip_av_tags self s stripped)
     = (if accepts_input self (In_strip_av_tags stripped)
        then snd (command self s (SerializeToString self (In_strip_av_tags stripped)) False)
        else s)
   \<and> fst (extract_av_tags self s extracted question_side)
     = (if accepts_input self (In_extract_av_tags extracted question_side)
        then snd (command self s
                    (SerializeToString self (In_extract_av_tags extracted question_side)) False)
        else s)
   \<and> fst (expand_clozes_to_reveal_latex self s expanded)
     = (if accepts_input self (In_expand_clozes_to_reveal_latex expanded)
        then snd (command self s
                    (SerializeToString self (In_expand_clozes_to_reveal_latex expanded)) False)
        else s)
   \<and> fst (add_file_to_media_folder self s desired_name data)
     = (if accepts_input self (In_add_file_to_media_folder desired_name data)
        then snd (command self s
                    (SerializeToString self (In_add_file_to_media_folder desired_name data))
                    False)
        else s)"
  by (simp add: sync_media_def template_requirements_def sched_timing_today_def
      render_card_def local_minutes_west_def strip_av_tags_def extract_av_tags_def
      expand_clozes_to_reveal_latex_def add_file_to_media_folder_def Let_def fst_run_command)

theorem only_sync_media_releases_lock_witness:
  "accepts_input (answering unset_output)
     (In_sync_media ''key'' ''media'' ''media.db'' ''https://sync'')
   \<and> fst (sync_media (answering unset_output) [] ''key'' ''media'' ''media.db'' ''https://sync'')
     = [([0], True)]
   \<and> accepts_input (answering unset_output) (In_local_minutes_west 1600000000)
   \<and> fst (local_minutes_west (answering unset_output) [] 1600000000) = [([0], False)]
   \<and> \<not> accepts_input (answering unset_output) (In_local_minutes_west (2 ^ 64))
   \<and> fst (local_minutes_west (answering unset_output) [] (2 ^ 64)) = []"
proof -
  note calls = only_sync_media_releases_lock
    [where self = "answering unset_output" and s = "[]" and hkey = "''key''"
       and media_folder = "''media''" and media_db = "''media.db''"
       and endpoint = "''https://sync''"]
  have sync_built: "accepts_input (answering unset_output)
      (In_sync_media ''key'' ''media'' ''media.db'' ''https://sync'')"
    by (simp add: answering_def fits_schema_def)
  have west_built: "accepts_input (answering unset_output) (In_local_minutes_west 1600000000)"
    by (simp add: answering_def fits_schema_def)
  have west_refused: "\<not> accepts_input (answering unset_output) (In_local_minutes_west (2 ^ 64))"
    by (simp add: answering_def fits_schema_def)
  have sync_calls: "fst (sync_media (answering unset_output) [] ''key'' ''media'' ''media.db''
                         ''https://sync'') = [([0], True)]"
    using calls [THEN conjunct1] sync_built
    by (simp only: if_True command_answering append_Nil)
  have west_calls: "fst (local_minutes_west (answering unset_output) [] 1600000000)
                      = [([0], False)]"
    using calls [where stamp = 1600000000, THEN conjunct2, THEN conjunct2, THEN conjunct2,
        THEN conjunct2, THEN conjunct1] west_built
    by (simp only: if_True command_answering append_Nil)
  have no_call: "fst (local_minutes_west (answering unset_output) [] (2 ^ 64)) = []"
    using calls [where stamp = "2 ^ 64", THEN conjunct2, THEN conjunct2, THEN conjunct2,
        THEN conjunct2, THEN conjunct1] west_refused
    by (simp only: if_False)
  show ?thesis
    by (rule conjI [OF sync_built conjI [OF sync_calls conjI [OF west_built
          conjI [OF west_calls conjI [OF west_refused no_call]]]]])
qed

text \<open>
  Claim C5, as amended. For a decoded response envelope, the dispatcher raises the
  native error that the classifier returns for the wire error if and only if the
  envelope's discriminant is \<^verbatim>\<open>error\<close> and the wire error's discriminant is one of
  the eight fixed kinds. When the discriminant is \<^verbatim>\<open>error\<close> and the wire error's is
  none of the eight, the dispatcher ends in the classifier's fatal internal-contract
  violation. Otherwise it returns the decoded envelope, from which the command method
  takes its payload, and no native exception is raised on that path.
\<close>

theorem run_command_raises_iff_known_error:
  assumes "decoded_response self s input release_gil = Some output"
  shows "((\<exists>e. proto_exception_to_native (out_error output) = Inr e
              \<and> snd (run_command self s input release_gil) = Inl (Raised e))
          \<longleftrightarrow> which_output output = Some ''error''
              \<and> which_error (out_error output)
                    \<in> Some ` set [''interrupted'', ''network_error'', ''io_error'',
                         ''db_error'', ''template_parse'', ''invalid_input'',
                         ''ankiweb_auth_failed'', ''ankiweb_misc_error''])
       \<and> (which_output output = Some ''error''
            \<and> which_error (out_error output)
                  \<notin> Some ` set [''interrupted'', ''network_error'', ''io_error'',
                       ''db_error'', ''template_parse'', ''invalid_input'',
                       ''ankiweb_auth_failed'', ''ankiweb_misc_error''] \<longrightarrow>
            snd (run_command self s input release_gil)
              = Inl (ImpossibleLiteral (which_error (out_error output))))
       \<and> (which_output output \<noteq> Some ''error'' \<longrightarrow>
            snd (run_command self s input release_gil) = Inr output)
       \<and> ((\<exists>e. snd (run_command self s input release_gil) = Inl (Raised e)) \<longrightarrow>
            which_output output = Some ''error'')"
proof -
  let ?known = "Some ` set [''interrupted'', ''network_error'', ''io_error'',
                         ''db_error'', ''template_parse'', ''invalid_input'',
                         ''ankiweb_auth_failed'', ''ankiweb_misc_error'']"
  let ?result = "snd (run_command self s input release_gil)"
  have on_error: "which_output output = Some ''error'' \<Longrightarrow>
      ?result = py_raise (proto_exception_to_native (out_error output))"
    using assms by (simp add: snd_run_command)
  have on_success: "which_output output \<noteq> Some ''error'' \<Longrightarrow> ?result = Inr output"
    using assms by (simp add: snd_run_command)
  have known: "which_output output = Some ''error'' \<Longrightarrow>
      which_error (out_error output) \<in> ?known \<Longrightarrow>
      \<exists>e. proto_exception_to_native (out_error output) = Inr e \<and> ?result = Inl (Raised e)"
  proof -
    assume err: "which_output output = Some ''error''"
      and k: "which_error (out_error output) \<in> ?known"
    from proto_exception_to_native_known [OF k]
    obtain e where e: "proto_exception_to_native (out_error output) = Inr e" ..
    from on_error [OF err] e have "?result = Inl (Raised e)"
      by (simp add: py_raise_def)
    with e show ?thesis by blast
  qed
  have unknown: "which_output output = Some ''error'' \<Longrightarrow>
      which_error (out_error output) \<notin> ?known \<Longrightarrow>
      ?result = Inl (ImpossibleLiteral (which_error (out_error output)))"
  proof -
    assume err: "which_output output = Some ''error''"
      and k: "which_error (out_error output) \<notin> ?known"
    from on_error [OF err] proto_exception_to_native_unknown [OF k]
    show ?thesis by (simp add: py_raise_def)
  qed
  have only_if: "\<And>e. proto_exception_to_native (out_error output) = Inr e \<Longrightarrow>
      ?result = Inl (Raised e) \<Longrightarrow>
      which_output output = Some ''error'' \<and> which_error (out_error output) \<in> ?known"
  proof -
    fix e
    assume e: "proto_exception_to_native (out_error output) = Inr e"
      and r: "?result = Inl (Raised e)"
    have err: "which_output output = Some ''error''"
    proof (rule ccontr)
      assume "which_output output \<noteq> Some ''error''"
      from on_success [OF this] r show False by simp
    qed
    have "which_error (out_error output) \<in> ?known"
    proof (rule ccontr)
      assume "which_error (out_error output) \<notin> ?known"
      from proto_exception_to_native_unknown [OF this] e show False by simp
    qed
    with err show "which_output output = Some ''error''
        \<and> which_error (out_error output) \<in> ?known" by (rule conjI)
  qed
  have raised_only_on_error: "(\<exists>e. ?result = Inl (Raised e)) \<longrightarrow>
      which_output output = Some ''error''"
  proof (rule impI, rule ccontr)
    assume "\<exists>e. ?result = Inl (Raised e)"
    then obtain e where r: "?result = Inl (Raised e)" ..
    assume "which_output output \<noteq> Some ''error''"
    from on_success [OF this] r show False by simp
  qed
  from known unknown on_success only_if raised_only_on_error show ?thesis
    by blast
qed

theorem run_command_raises_iff_known_error_witness:
  "decoded_response (answering (error_output (wire_error ''network_error'' ''net down'' False)))
       [] (In_sync_media ''key'' ''media'' ''media.db'' ''https://sync'') True
     = Some (error_output (wire_error ''network_error'' ''net down'' False))
   \<and> which_output (error_output (wire_error ''network_error'' ''net down'' False))
     = Some ''error''
   \<and> (\<exists>e. proto_exception_to_native
              (out_error (error_output (wire_error ''network_error'' ''net down'' False)))
            = Inr e
          \<and> snd (run_command
                   (answering (error_output (wire_error ''network_error'' ''net down'' False)))
                   [] (In_sync_media ''key'' ''media'' ''media.db'' ''https://sync'') True)
            = Inl (Raised e))
   \<and> decoded_response (answering timing_output) [] (In_sched_timing_today 0 0 0 0 4) False
     = Some timing_output
   \<and> which_output timing_output \<noteq> Some ''error''
   \<and> snd (run_command (answering timing_output) [] (In_sched_timing_today 0 0 0 0 4) False)
       = Inr timing_output"
proof -
  have failed: "decoded_response
       (answering (error_output (wire_error ''network_error'' ''net down'' False)))
       [] (In_sync_media ''key'' ''media'' ''media.db'' ''https://sync'') True
     = Some (error_output (wire_error ''network_error'' ''net down'' False))"
    by (rule decoded_response_answering)
  have succeeded: "decoded_response (answering timing_output) []
       (In_sched_timing_today 0 0 0 0 4) False = Some timing_output"
    by (rule decoded_response_answering)
  have is_error: "which_output (error_output (wire_error ''network_error'' ''net down'' False))
                    = Some ''error''"
    by (simp add: error_output_def)
  have known: "which_error
                 (out_error (error_output (wire_error ''network_error'' ''net down'' False)))
     \<in> Some ` set [''interrupted'', ''network_error'', ''io_error'',
                         ''db_error'', ''template_parse'', ''invalid_input'',
                         ''ankiweb_auth_failed'', ''ankiweb_misc_error'']"
    by (simp add: error_output_def wire_error_def)
  have no_error: "which_output timing_output \<noteq> Some ''error''"
    by (simp add: timing_output_def)
  have raised: "\<exists>e. proto_exception_to_native
              (out_error (error_output (wire_error ''network_error'' ''net down'' False)))
            = Inr e
          \<and> snd (run_command
                   (answering (error_output (wire_error ''network_error'' ''net down'' False)))
                   [] (In_sync_media ''key'' ''media'' ''media.db'' ''https://sync'') True)
            = Inl (Raised e)"
    by (rule run_command_raises_iff_known_error [OF failed, THEN conjunct1, THEN iffD2,
          OF conjI [OF is_error known]])
  have returned: "snd (run_command (answering timing_output) []
         (In_sched_timing_today 0 0 0 0 4) False) = Inr timing_output"
    by (rule run_command_raises_iff_known_error [OF succeeded, THEN conjunct2,
          THEN conjunct2, THEN conjunct1, THEN mp, OF no_error])
  show ?thesis
    by (rule conjI [OF failed conjI [OF is_error conjI [OF raised conjI [OF succeeded
          conjI [OF no_error returned]]]]])
qed

text \<open>
  The claim as stated fails: for an envelope whose discriminant is \<^verbatim>\<open>error\<close> and
  whose wire error has no member set, the dispatcher ends in the fatal
  internal-contract violation; no native error is raised.
\<close>

theorem error_envelope_with_unset_kind_aborts:
  "decoded_response (answering (error_output unset_error)) [] (In_strip_av_tags ''[sound:a.mp3]'')
       False
     = Some (error_output unset_error)
   \<and> which_output (error_output unset_error) = Some ''error''
   \<and> proto_exception_to_native (out_error (error_output unset_error))
       = Inl (ImpossibleLiteral None)
   \<and> snd (run_command (answering (error_output unset_error)) []
            (In_strip_av_tags ''[sound:a.mp3]'') False)
       = Inl (ImpossibleLiteral None)"
proof -
  have decoded: "decoded_response (answering (error_output unset_error)) []
       (In_strip_av_tags ''[sound:a.mp3]'') False = Some (error_output unset_error)"
    by (rule decoded_response_answering)
  have is_error: "which_output (error_output unset_error) = Some ''error''"
    by (simp add: error_output_def)
  have aborted: "proto_exception_to_native (out_error (error_output unset_error))
                   = Inl (ImpossibleLiteral None)"
    by (simp add: error_output_def unset_error_def proto_exception_to_native_def
        assert_impossible_literal_def)
  have result: "snd (run_command (answering (error_output unset_error)) []
            (In_strip_av_tags ''[sound:a.mp3]'') False) = Inl (ImpossibleLiteral None)"
    by (simp add: snd_run_command decoded is_error aborted py_raise_def)
  show ?thesis
    by (rule conjI [OF decoded conjI [OF is_error conjI [OF aborted result]]])
qed

text \<open>
  Claim C2, as amended. When the discriminant of the decoded response envelope is not
  \<^verbatim>\<open>error\<close>, the dispatcher returns the envelope whatever its discriminant is: it never
  compares the discriminant with the command that was sent and has no abort for a
  mismatch. Each command method then returns the member of the envelope named after its
  own command (decoded where the method decodes), and no other member.
\<close>

theorem dispatcher_returns_any_non_error_envelope:
  assumes "which_output output \<noteq> Some ''error''"
  shows "(decoded_response self s input release_gil = Some output \<longrightarrow>
            snd (run_command self s input release_gil) = Inr output)
       \<and> (accepts_input self (In_template_requirements template_fronts field_map)
            \<and> decoded_response self s (In_template_requirements template_fronts field_map) False
                = Some output \<longrightarrow>
          snd (template_requirements self s template_fronts field_map)
            = Inr (proto_template_reqs_to_legacy
                     (requirements (out_template_requirements output))))
       \<and> (accepts_input self
            (In_sched_timing_today created_secs created_mins_west now_secs now_mins_west rollover)
            \<and> decoded_response self s
                (In_sched_timing_today created_secs created_mins_west now_secs now_mins_west
                   rollover)
                False = Some output \<longrightarrow>
          snd (sched_timing_today self s created_secs created_mins_west now_secs now_mins_west
                 rollover)
            = Inr (out_sched_timing_today output))
       \<and> (accepts_input self (In_render_card qfmt afmt fields' card_ord)
            \<and> decoded_response self s (In_render_card qfmt afmt fields' card_ord) False
                = Some output \<longrightarrow>
          snd (render_card self s qfmt afmt fields' card_ord)
            = Inr (proto_replacement_list_to_native (question_nodes (out_render_card output)),
                   proto_replacement_list_to_native (answer_nodes (out_render_card output))))
       \<and> (accepts_input self (In_local_minutes_west stamp)
            \<and> decoded_response self s (In_local_minutes_west stamp) False = Some output \<longrightarrow>
          snd (local_minutes_west self s stamp) = Inr (out_local_minutes_west output))
       \<and> (accepts_input self (In_strip_av_tags stripped)
            \<and> decoded_response self s (In_strip_av_tags stripped) False = Some output \<longrightarrow>
          snd (strip_av_tags self s stripped) = Inr (out_strip_av_tags output))
       \<and> (accepts_input self (In_extract_av_tags extracted question_side)
            \<and> decoded_response self s (In_extract_av_tags extracted question_side) False
                = Some output \<longrightarrow>
          snd (extract_av_tags self s extracted question_side)
            = Inr (av_text (out_extract_av_tags output),
                   map av_tag_to_native (av_tags (out_extract_av_tags output))))
       \<and> (accepts_input self (In_expand_clozes_to_reveal_latex expanded)
            \<and> decoded_response self s (In_expand_clozes_to_reveal_latex expanded) False
                = Some output \<longrightarrow>
          snd (expand_clozes_to_reveal_latex self s expanded)
            = Inr (out_expand_clozes_to_reveal_latex output))
       \<and> (accepts_input self (In_add_file_to_media_folder desired_name data)
            \<and> decoded_response self s (In_add_file_to_media_folder desired_name data) False
                = Some output \<longrightarrow>
          snd (add_file_to_media_folder self s desired_name data)
            = Inr (out_add_file_to_media_folder output))
       \<and> (accepts_input self (In_sync_media hkey media_folder media_db endpoint)
            \<and> decoded_response self s (In_sync_media hkey media_folder media_db endpoint) True
                = Some output \<longrightarrow>
          snd (sync_media self s hkey media_folder media_db endpoint) = Inr ())"
  using assms
  by (simp add: sync_media_def template_requirements_def sched_timing_today_def
      render_card_def local_minutes_west_def strip_av_tags_def extract_av_tags_def
      expand_clozes_to_reveal_latex_def add_file_to_media_folder_def Let_def snd_run_command)

theorem dispatcher_returns_any_non_error_envelope_witness:
  "which_output timing_output \<noteq> Some ''error''
   \<and> accepts_input (answering timing_output) (In_local_minutes_west 1600000000)
   \<and> decoded_response (answering timing_output) [] (In_local_minutes_west 1600000000) False
     = Some timing_output
   \<and> snd (local_minutes_west (answering timing_output) [] 1600000000)
     = Inr (out_local_minutes_west timing_output)
   \<and> out_local_minutes_west timing_output = 0
   \<and> accepts_input (answering timing_output) (In_sched_timing_today 0 0 0 0 4)
   \<and> decoded_response (answering timing_output) [] (In_sched_timing_today 0 0 0 0 4) False
     = Some timing_output
   \<and> snd (sched_timing_today (answering timing_output) [] 0 0 0 0 4)
     = Inr (out_sched_timing_today timing_output)
   \<and> out_sched_timing_today timing_output = (5, 1600000000)"
proof -
  have no_error: "which_output timing_output \<noteq> Some ''error''"
    by (simp add: timing_output_def)
  note members = dispatcher_returns_any_non_error_envelope
    [OF no_error, where self = "answering timing_output" and s = "[]"
       and stamp = 1600000000 and created_secs = 0 and created_mins_west = 0
       and now_secs = 0 and now_mins_west = 0 and rollover = 4]
  have west_built: "accepts_input (answering timing_output) (In_local_minutes_west 1600000000)"
    by (simp add: answering_def fits_schema_def)
  have timing_built: "accepts_input (answering timing_output) (In_sched_timing_today 0 0 0 0 4)"
    by (simp add: answering_def fits_schema_def)
  have west: "decoded_response (answering timing_output) [] (In_local_minutes_west 1600000000)
                False = Some timing_output"
    by (rule decoded_response_answering)
  have timing: "decoded_response (answering timing_output) [] (In_sched_timing_today 0 0 0 0 4)
                  False = Some timing_output"
    by (rule decoded_response_answering)
  have west_member: "out_local_minutes_west timing_output = 0"
    by (simp add: timing_output_def unset_output_def)
  have timing_member: "out_sched_timing_today timing_output = (5, 1600000000)"
    by (simp add: timing_output_def unset_output_def)
  have west_result: "snd (local_minutes_west (answering timing_output) [] 1600000000)
                       = Inr (out_local_minutes_west timing_output)"
    by (rule members [THEN conjunct2, THEN conjunct2, THEN conjunct2, THEN conjunct2,
          THEN conjunct1, THEN mp, OF conjI [OF west_built west]])
  have timing_result: "snd (sched_timing_today (answering timing_output) [] 0 0 0 0 4)
                         = Inr (out_sched_timing_today timing_output)"
    by (rule members [THEN conjunct2, THEN conjunct2, THEN conjunct1, THEN mp,
          OF conjI [OF timing_built timing]])
  show ?thesis
    by (rule conjI [OF no_error conjI [OF west_built conjI [OF west conjI [OF west_result
          conjI [OF west_member conjI [OF timing_built conjI [OF timing
          conjI [OF timing_result timing_member]]]]]]]])
qed

text \<open>
  The claim as stated fails: the engine answers the template-requirements command with
  an envelope whose discriminant is \<^verbatim>\<open>sched_timing_today\<close>, and the method returns the
  empty requirement list instead of aborting.
\<close>

theorem mismatched_envelope_is_returned:
  "which_output timing_output \<noteq> Some ''template_requirements''
   \<and> which_output timing_output \<noteq> Some ''error''
   \<and> accepts_input (answering timing_output)
       (In_template_requirements [''{{Front}}''] [''Front'' \<mapsto> 0])
   \<and> decoded_response (answering timing_output) []
       (In_template_requirements [''{{Front}}''] [''Front'' \<mapsto> 0]) False = Some timing_output
   \<and> snd (run_command (answering timing_output) []
            (In_template_requirements [''{{Front}}''] [''Front'' \<mapsto> 0]) False)
       = Inr timing_output
   \<and> snd (template_requirements (answering timing_output) [] [''{{Front}}''] [''Front'' \<mapsto> 0])
       = Inr []"
proof -
  have other: "which_output timing_output \<noteq> Some ''template_requirements''"
    by (simp add: timing_output_def)
  have no_error: "which_output timing_output \<noteq> Some ''error''"
    by (simp add: timing_output_def)
  have built: "accepts_input (answering timing_output)
       (In_template_requirements [''{{Front}}''] [''Front'' \<mapsto> 0])"
    by (simp add: answering_def fits_schema_def)
  have decoded: "decoded_response (answering timing_output) []
       (In_template_requirements [''{{Front}}''] [''Front'' \<mapsto> 0]) False = Some timing_output"
    by (rule decoded_response_answering)
  have returned: "snd (run_command (answering timing_output) []
            (In_template_requirements [''{{Front}}''] [''Front'' \<mapsto> 0]) False)
       = Inr timing_output"
    by (simp add: snd_run_command decoded no_error)
  have member: "requirements (out_template_requirements timing_output) = []"
    by (simp add: timing_output_def unset_output_def)
  have result: "snd (template_requirements (answering timing_output) [] [''{{Front}}'']
                       [''Front'' \<mapsto> 0]) = Inr []"
    by (simp add: template_requirements_def built returned member
        proto_template_reqs_to_legacy_def)
  show ?thesis
    by (rule conjI [OF other conjI [OF no_error conjI [OF built conjI [OF decoded
          conjI [OF returned result]]]]])
qed

section \<open>Unknown discriminants\<close>

text \<open>
  Claim C1, as amended. An unknown discriminant is fatal in the error classifier and in
  the progress decoder, at both levels of the progress message. The three decoders of
  command outputs have no failing branch: the AV-tag decoder turns every tag whose
  discriminant is not \<^verbatim>\<open>sound_or_video\<close> (unknown and unset included) into a
  text-to-speech tag built from the \<^verbatim>\<open>tts\<close> member, the rendered-node decoder turns
  every node whose discriminant is not \<^verbatim>\<open>text\<close> into a replacement built from the
  \<^verbatim>\<open>replacement\<close> member, and the template-requirement decoder turns every requirement
  whose discriminant is neither \<^verbatim>\<open>any\<close> nor \<^verbatim>\<open>all\<close> into \<^verbatim>\<open>none\<close>.
\<close>

theorem decoders_on_unknown_discriminant:
  "(which_error err \<notin> Some ` set [''interrupted'', ''network_error'', ''io_error'',
        ''db_error'', ''template_parse'', ''invalid_input'', ''ankiweb_auth_failed'',
        ''ankiweb_misc_error''] \<longrightarrow>
      proto_exception_to_native err = Inl (ImpossibleLiteral (which_error err)))
   \<and> (which_progress p \<noteq> Some ''media_sync'' \<longrightarrow>
      proto_progress_to_native p = Inl (ImpossibleLiteral (which_progress p)))
   \<and> (which_progress p = Some ''media_sync''
      \<and> which_media_sync (media_sync p)
          \<notin> Some ` set [''downloaded_changes'', ''downloaded_files'', ''uploaded'',
                        ''removed_files''] \<longrightarrow>
      proto_progress_to_native p = Inl (ImpossibleLiteral (which_media_sync (media_sync p))))
   \<and> (which_tag tag \<noteq> Some ''sound_or_video'' \<longrightarrow>
      av_tag_to_native tag
        = TTSTag (field_text (tts tag)) (lang (tts tag)) (voices (tts tag))
            (other_args (tts tag)) (speed (tts tag)))
   \<and> length (proto_replacement_list_to_native nodes) = length nodes
   \<and> (\<forall>i < length nodes. which_node (nodes ! i) \<noteq> Some ''text'' \<longrightarrow>
        proto_replacement_list_to_native nodes ! i
          = Inr \<lparr> field_name = pb_field_name (replacement (nodes ! i)),
                  current_text = pb_current_text (replacement (nodes ! i)),
                  filters = pb_filters (replacement (nodes ! i)) \<rparr>)
   \<and> length (proto_template_reqs_to_legacy reqs) = length reqs
   \<and> (\<forall>i < length reqs.
        which_req (reqs ! i) \<noteq> Some ''any'' \<and> which_req (reqs ! i) \<noteq> Some ''all'' \<longrightarrow>
        proto_template_reqs_to_legacy reqs ! i = (int i, ''none'', []))"
proof -
  have classifier: "which_error err \<notin> Some ` set [''interrupted'', ''network_error'',
        ''io_error'', ''db_error'', ''template_parse'', ''invalid_input'',
        ''ankiweb_auth_failed'', ''ankiweb_misc_error''] \<longrightarrow>
      proto_exception_to_native err = Inl (ImpossibleLiteral (which_error err))"
    by (auto simp add: proto_exception_to_native_def assert_impossible_literal_def Let_def)
  have outer: "which_progress p \<noteq> Some ''media_sync'' \<longrightarrow>
      proto_progress_to_native p = Inl (ImpossibleLiteral (which_progress p))"
    by (simp add: proto_progress_to_native_def assert_impossible_literal_def)
  have inner: "which_progress p = Some ''media_sync''
      \<and> which_media_sync (media_sync p)
          \<notin> Some ` set [''downloaded_changes'', ''downloaded_files'', ''uploaded'',
                        ''removed_files''] \<longrightarrow>
      proto_progress_to_native p = Inl (ImpossibleLiteral (which_media_sync (media_sync p)))"
    by (auto simp add: proto_progress_to_native_def assert_impossible_literal_def Let_def)
  have av: "which_tag tag \<noteq> Some ''sound_or_video'' \<longrightarrow>
      av_tag_to_native tag
        = TTSTag (field_text (tts tag)) (lang (tts tag)) (voices (tts tag))
            (other_args (tts tag)) (speed (tts tag))"
    by (simp add: av_tag_to_native_def)
  have nodes: "length (proto_replacement_list_to_native nodes) = length nodes
     \<and> (\<forall>i < length nodes. which_node (nodes ! i) \<noteq> Some ''text'' \<longrightarrow>
        proto_replacement_list_to_native nodes ! i
          = Inr \<lparr> field_name = pb_field_name (replacement (nodes ! i)),
                  current_text = pb_current_text (replacement (nodes ! i)),
                  filters = pb_filters (replacement (nodes ! i)) \<rparr>)"
    by (simp add: proto_replacement_list_to_native_map)
  have reqs: "length (proto_template_reqs_to_legacy reqs) = length reqs
     \<and> (\<forall>i < length reqs.
        which_req (reqs ! i) \<noteq> Some ''any'' \<and> which_req (reqs ! i) \<noteq> Some ''all'' \<longrightarrow>
        proto_template_reqs_to_legacy reqs ! i = (int i, ''none'', []))"
    by (simp add: length_proto_template_reqs_to_legacy nth_proto_template_reqs_to_legacy)
  from classifier outer inner av nodes reqs show ?thesis
    by blast
qed

theorem decoders_on_unknown_discriminant_witness:
  "proto_exception_to_native (wire_error ''sync_conflict'' [] False)
     = Inl (ImpossibleLiteral (which_error (wire_error ''sync_conflict'' [] False)))
   \<and> which_error (wire_error ''sync_conflict'' [] False) = Some ''sync_conflict''
   \<and> proto_progress_to_native (wire_progress (Some ''full_sync'') None 0 0)
     = Inl (ImpossibleLiteral (which_progress (wire_progress (Some ''full_sync'') None 0 0)))
   \<and> which_progress (wire_progress (Some ''full_sync'') None 0 0) = Some ''full_sync''
   \<and> av_tag_to_native (unknown_tag ''picture'')
     = TTSTag (field_text (tts (unknown_tag ''picture''))) (lang (tts (unknown_tag ''picture'')))
         (voices (tts (unknown_tag ''picture''))) (other_args (tts (unknown_tag ''picture'')))
         (speed (tts (unknown_tag ''picture'')))
   \<and> which_tag (unknown_tag ''picture'') = Some ''picture''
   \<and> proto_template_reqs_to_legacy duplicate_ords_reqs ! 1 = (int 1, ''none'', [])
   \<and> which_req (duplicate_ords_reqs ! 1) = Some ''none''
   \<and> proto_replacement_list_to_native [unknown_node ''picture''] ! 0
     = Inr \<lparr> field_name = pb_field_name (replacement ([unknown_node ''picture''] ! 0)),
             current_text = pb_current_text (replacement ([unknown_node ''picture''] ! 0)),
             filters = pb_filters (replacement ([unknown_node ''picture''] ! 0)) \<rparr>
   \<and> which_node ([unknown_node ''picture''] ! 0) = Some ''picture''"
proof -
  note decoders = decoders_on_unknown_discriminant
    [where err = "wire_error ''sync_conflict'' [] False"
       and p = "wire_progress (Some ''full_sync'') None 0 0"
       and tag = "unknown_tag ''picture''"
       and nodes = "[unknown_node ''picture'']"
       and reqs = duplicate_ords_reqs]
  have err_which: "which_error (wire_error ''sync_conflict'' [] False) = Some ''sync_conflict''"
    by (simp add: wire_error_def)
  have err_unknown: "which_error (wire_error ''sync_conflict'' [] False)
      \<notin> Some ` set [''interrupted'', ''network_error'', ''io_error'',
        ''db_error'', ''template_parse'', ''invalid_input'', ''ankiweb_auth_failed'',
        ''ankiweb_misc_error'']"
    by (simp add: wire_error_def)
  have p_which: "which_progress (wire_progress (Some ''full_sync'') None 0 0) = Some ''full_sync''"
    by (simp add: wire_progress_def)
  have p_unknown: "which_progress (wire_progress (Some ''full_sync'') None 0 0)
      \<noteq> Some ''media_sync''"
    by (simp add: wire_progress_def)
  have tag_which: "which_tag (unknown_tag ''picture'') = Some ''picture''"
    by (simp add: unknown_tag_def)
  have tag_unknown: "which_tag (unknown_tag ''picture'') \<noteq> Some ''sound_or_video''"
    by (simp add: unknown_tag_def)
  have req_which: "which_req (duplicate_ords_reqs ! 1) = Some ''none''"
    by (simp add: duplicate_ords_reqs_def)
  have req_index: "1 < length duplicate_ords_reqs"
    by (simp add: duplicate_ords_reqs_def)
  have req_unknown: "which_req (duplicate_ords_reqs ! 1) \<noteq> Some ''any''
      \<and> which_req (duplicate_ords_reqs ! 1) \<noteq> Some ''all''"
    by (simp add: duplicate_ords_reqs_def)
  have c1: "proto_exception_to_native (wire_error ''sync_conflict'' [] False)
     = Inl (ImpossibleLiteral (which_error (wire_error ''sync_conflict'' [] False)))"
    by (rule decoders [THEN conjunct1, THEN mp, OF err_unknown])
  have c2: "proto_progress_to_native (wire_progress (Some ''full_sync'') None 0 0)
     = Inl (ImpossibleLiteral (which_progress (wire_progress (Some ''full_sync'') None 0 0)))"
    by (rule decoders [THEN conjunct2, THEN conjunct1, THEN mp, OF p_unknown])
  have c4: "av_tag_to_native (unknown_tag ''picture'')
     = TTSTag (field_text (tts (unknown_tag ''picture''))) (lang (tts (unknown_tag ''picture'')))
         (voices (tts (unknown_tag ''picture''))) (other_args (tts (unknown_tag ''picture'')))
         (speed (tts (unknown_tag ''picture'')))"
    by (rule decoders [THEN conjunct2, THEN conjunct2, THEN conjunct2, THEN conjunct1,
          THEN mp, OF tag_unknown])
  have c8: "proto_template_reqs_to_legacy duplicate_ords_reqs ! 1 = (int 1, ''none'', [])"
    by (rule decoders [THEN conjunct2, THEN conjunct2, THEN conjunct2, THEN conjunct2,
          THEN conjunct2, THEN conjunct2, THEN conjunct2, THEN spec, THEN mp, OF req_index,
          THEN mp, OF req_unknown])
  have node_which: "which_node ([unknown_node ''picture''] ! 0) = Some ''picture''"
    by (simp add: unknown_node_def)
  have node_index: "0 < length [unknown_node ''picture'']"
    by simp
  have node_unknown: "which_node ([unknown_node ''picture''] ! 0) \<noteq> Some ''text''"
    by (simp add: unknown_node_def)
  have c6: "proto_replacement_list_to_native [unknown_node ''picture''] ! 0
     = Inr \<lparr> field_name = pb_field_name (replacement ([unknown_node ''picture''] ! 0)),
             current_text = pb_current_text (replacement ([unknown_node ''picture''] ! 0)),
             filters = pb_filters (replacement ([unknown_node ''picture''] ! 0)) \<rparr>"
    by (rule decoders [THEN conjunct2, THEN conjunct2, THEN conjunct2, THEN conjunct2,
          THEN conjunct2, THEN conjunct1, THEN spec, THEN mp, OF node_index,
          THEN mp, OF node_unknown])
  show ?thesis
    by (rule conjI [OF c1 conjI [OF err_which conjI [OF c2 conjI [OF p_which
          conjI [OF c4 conjI [OF tag_which conjI [OF c8 conjI [OF req_which
          conjI [OF c6 node_which]]]]]]]]])
qed

text \<open>
  The claim as stated fails: an AV tag whose discriminant names an unknown member, and
  one with no member set, decode to a text-to-speech tag with empty fields, and a
  rendered node with an unknown discriminant decodes to an empty replacement. Nothing
  fails.
\<close>

theorem unknown_discriminant_defaults_silently:
  "which_tag (unknown_tag ''picture'') = Some ''picture''
   \<and> av_tag_to_native (unknown_tag ''picture'') = TTSTag [] [] [] [] 0
   \<and> which_tag unset_tag = None
   \<and> av_tag_to_native unset_tag = TTSTag [] [] [] [] 0
   \<and> which_node (unknown_node ''picture'') = Some ''picture''
   \<and> proto_replacement_list_to_native [unknown_node ''picture'']
     = [Inr \<lparr> field_name = [], current_text = [], filters = [] \<rparr>]"
  by (simp add: av_tag_to_native_def unknown_tag_def unset_tag_def unknown_node_def
      unset_node_def proto_replacement_list_to_native_def replacement_results_append_def)

end
